theory Spec2Isabelle
  imports Complex_Main
begin

section \<open>JavaScript values and the runtime the agents run on\<close>

text \<open>
  The model replies, the audit events and the decision records of the HR Autopilot
  back end are plain JavaScript values of type \<^verbatim>\<open>any\<close>: nothing in the source checks
  their shape at run time.  They are therefore modelled by one datatype of values; an
  object is its list of properties in insertion order.
\<close>

datatype jsval =
    JUndefined
  | JNull
  | JBool bool
  | JNum real
  | JStr string
  | JArr "jsval list"
  | JObj "(string \<times> jsval) list"

text \<open>
  Whatever a \<^verbatim>\<open>throw\<close> or a rejected promise carries.  \<open>Error m\<close> is any instance
  of \<^verbatim>\<open>Error\<close> (a \<^verbatim>\<open>TypeError\<close> or \<^verbatim>\<open>SyntaxError\<close> included) with message \<open>m\<close>;
  \<open>NonError\<close> is a thrown value that is not an \<^verbatim>\<open>Error\<close> instance.
\<close>

datatype exn = Error string | NonError

text \<open>
  Reading a property \<^verbatim>\<open>v.k\<close>.  On \<^verbatim>\<open>undefined\<close> and \<^verbatim>\<open>null\<close> it throws a
  \<^verbatim>\<open>TypeError\<close>; on an object it yields the property or \<^verbatim>\<open>undefined\<close>.  The source
  reads only the keys \<^verbatim>\<open>decision\<close>, \<^verbatim>\<open>status\<close>, \<^verbatim>\<open>reason\<close>, \<^verbatim>\<open>confidence\<close>,
  \<^verbatim>\<open>issues\<close>, \<^verbatim>\<open>plan\<close>, \<^verbatim>\<open>type\<close>, \<^verbatim>\<open>severity\<close> and \<^verbatim>\<open>description\<close>, none of which
  a primitive or an array inherits, so every other value yields \<^verbatim>\<open>undefined\<close>.
\<close>

fun get_prop :: "jsval \<Rightarrow> string \<Rightarrow> exn + jsval" where
  "get_prop JUndefined k = Inl (Error (''Cannot read properties of undefined (reading '' @ k @ '')''))"
| "get_prop JNull k = Inl (Error (''Cannot read properties of null (reading '' @ k @ '')''))"
| "get_prop (JObj kvs) k = Inr (case map_of kvs k of None \<Rightarrow> JUndefined | Some v \<Rightarrow> v)"
| "get_prop v k = Inr JUndefined"

text \<open>
  Assignment of a property in an object literal or a spread: an existing key keeps its
  place and takes the new value, a new key goes last.
\<close>

fun set_prop :: "string \<Rightarrow> jsval \<Rightarrow> (string \<times> jsval) list \<Rightarrow> (string \<times> jsval) list" where
  "set_prop k v [] = [(k, v)]"
| "set_prop k v (p # ps) = (if fst p = k then (k, v) # ps else p # set_prop k v ps)"

fun join_with :: "string \<Rightarrow> string list \<Rightarrow> string" where
  "join_with sep [] = []"
| "join_with sep [x] = x"
| "join_with sep (x # y # ys) = x @ sep @ join_with sep (y # ys)"

text \<open>
  \<^verbatim>\<open>String(v)\<close>, which a template literal \<^verbatim>\<open>`${v}`\<close> applies.  The decimal rendering of
  a number is the runtime's, passed as \<open>shownum\<close>.
\<close>

fun js_to_string :: "(real \<Rightarrow> string) \<Rightarrow> jsval \<Rightarrow> string" where
  "js_to_string shownum JUndefined = ''undefined''"
| "js_to_string shownum JNull = ''null''"
| "js_to_string shownum (JBool b) = (if b then ''true'' else ''false'')"
| "js_to_string shownum (JNum r) = shownum r"
| "js_to_string shownum (JStr s) = s"
| "js_to_string shownum (JArr vs) =
     join_with '','' (map (\<lambda>v. if v = JNull \<or> v = JUndefined then [] else js_to_string shownum v) vs)"
| "js_to_string shownum (JObj kvs) = ''[object Object]''"

text \<open>
  The built-ins and readings of the environment that the source calls but does not
  define.  \<open>JSON_parse\<close> is \<^verbatim>\<open>JSON.parse\<close> on a string: \<open>None\<close> is its
  \<^verbatim>\<open>SyntaxError\<close>.  \<open>JSON_stringify n\<close> is \<^verbatim>\<open>JSON.stringify(v, null, n)\<close>.
  \<open>isoNow\<close> is \<^verbatim>\<open>new Date().toISOString()\<close>, \<open>elapsedMs\<close> the difference of the two
  \<^verbatim>\<open>Date.now()\<close> readings of a call, \<open>callerName\<close> the stack frame that
  \<^verbatim>\<open>getCallerName\<close> extracts, and \<open>processEnv\<close> is \<^verbatim>\<open>process.env\<close>.
\<close>

record runtime =
  JSON_parse :: "string \<Rightarrow> jsval option"
  JSON_stringify :: "nat \<Rightarrow> jsval \<Rightarrow> string"
  Number_toString :: "real \<Rightarrow> string"
  isoNow :: string
  elapsedMs :: int
  callerName :: string
  processEnv :: "string \<Rightarrow> string option"

definition template :: "runtime \<Rightarrow> jsval \<Rightarrow> string" where
  "template rt v = js_to_string (Number_toString rt) v"

section \<open>Dates\<close>

text \<open>
  A \<^verbatim>\<open>Date\<close> is its time value, the milliseconds since the epoch, or the invalid date
  whose time value is \<^verbatim>\<open>NaN\<close>.  A date field of a request is either absent (a falsy
  \<^verbatim>\<open>undefined\<close> or empty string, from which \<^verbatim>\<open>new Date\<close> makes the invalid date) or
  given, and then stands for the date that \<^verbatim>\<open>new Date(field)\<close> constructs.
\<close>

datatype jsdate = InvalidDate | TimeValue int

datatype date_field = Absent | Given jsdate

fun new_Date :: "date_field \<Rightarrow> jsdate" where
  "new_Date Absent = InvalidDate"
| "new_Date (Given d) = d"

fun truthy :: "date_field \<Rightarrow> bool" where
  "truthy Absent = False"
| "truthy (Given d) = True"

text \<open>\<^verbatim>\<open>a > b\<close> on dates compares time values; with \<^verbatim>\<open>NaN\<close> on either side it is false.\<close>

fun date_gt :: "jsdate \<Rightarrow> jsdate \<Rightarrow> bool" where
  "date_gt (TimeValue a) (TimeValue b) = (a > b)"
| "date_gt a b = False"

definition millisecondsPerDay :: int where
  "millisecondsPerDay = 86400000"

text \<open>
  The time value of midnight UTC of a civil date, which is what \<^verbatim>\<open>new Date('2024-01-02')\<close>
  denotes, and the day of the week of a time value in UTC (0 is Sunday, 6 is Saturday;
  the epoch was a Thursday).
\<close>

definition days_from_civil :: "int \<Rightarrow> int \<Rightarrow> int \<Rightarrow> int" where
  "days_from_civil y m d =
     (let y' = (if m \<le> 2 then y - 1 else y);
          era = y' div 400;
          yoe = y' - era * 400;
          doy = (153 * (if m > 2 then m - 3 else m + 9) + 2) div 5 + d - 1;
          doe = yoe * 365 + yoe div 4 - yoe div 100 + doy
      in era * 146097 + doe - 719468)"

definition utc_date :: "int \<Rightarrow> int \<Rightarrow> int \<Rightarrow> date_field" where
  "utc_date y m d = Given (TimeValue (days_from_civil y m d * millisecondsPerDay))"

definition getDay :: "int \<Rightarrow> int" where
  "getDay t = (t div millisecondsPerDay + 4) mod 7"

section \<open>The records of db/types\<close>

text \<open>
  \<^verbatim>\<open>db/types\<close> is imported by every file and defines the shapes below.  A decision keeps
  its status, reason and metadata as values: the parsers store what the model replied.
\<close>

record LeaveRequest =
  requestId :: string
  employeeId :: string
  startDate :: date_field
  endDate :: date_field
  requestReason :: "string option"

record Employee =
  empId :: string
  empName :: string
  leaveBalance :: real
  position :: string
  department :: string
  experienceLevel :: "string option"

record HRManager =
  managerId :: string
  managerName :: string
  clearanceLevel :: int

record HRDecision =
  status :: jsval
  reason :: jsval
  metadata :: "(string \<times> jsval) list option"

section \<open>FastApprovalAgent (agents/hackathon/fastApproval.ts)\<close>

definition FAST_APPROVAL_THRESHOLD_DAYS :: int where
  "FAST_APPROVAL_THRESHOLD_DAYS = 3"

text \<open>\<^verbatim>\<open>Math.round\<close>: the nearest integer, a half going up.\<close>

definition Math_round :: "real \<Rightarrow> int" where
  "Math_round x = \<lfloor>x + 1 / 2\<rfloor>"

text \<open>
  The file's own helper (not the method of \<^verbatim>\<open>BaseAgent\<close>):
  \<^verbatim>\<open>Math.round((end.getTime() - start.getTime()) / millisecondsPerDay)\<close>.  \<open>None\<close> is
  \<^verbatim>\<open>NaN\<close>.  The quotient is taken in the reals; for time values in the range of \<^verbatim>\<open>Date\<close>
  the double quotient rounds to the same integer wherever it is near the threshold.
\<close>

fun calculateBusinessDays :: "jsdate \<Rightarrow> jsdate \<Rightarrow> int option" where
  "calculateBusinessDays (TimeValue s) (TimeValue e) =
     Some (Math_round (real_of_int (e - s) / real_of_int millisecondsPerDay))"
| "calculateBusinessDays s e = None"

definition checkLeaveDuration :: "LeaveRequest \<Rightarrow> bool" where
  "checkLeaveDuration request =
     (case calculateBusinessDays (new_Date (startDate request)) (new_Date (endDate request)) of
        None \<Rightarrow> False
      | Some daysRequested \<Rightarrow> daysRequested \<le> FAST_APPROVAL_THRESHOLD_DAYS)"

definition checkCalendarConflicts :: "LeaveRequest \<Rightarrow> bool" where
  "checkCalendarConflicts request = True"

text \<open>
  \<^verbatim>\<open>evaluate\<close> takes the request only.  The state it touches is the demo log that
  \<^verbatim>\<open>logDemoEvent\<close> appends to.
\<close>

definition FastApprovalAgent_evaluate ::
  "runtime \<Rightarrow> LeaveRequest \<Rightarrow> string list \<Rightarrow> HRDecision \<times> string list" where
  "FastApprovalAgent_evaluate rt request demoLog =
     (let isShortLeave = checkLeaveDuration request;
          hasNoConflicts = checkCalendarConflicts request
      in if isShortLeave \<and> hasNoConflicts
         then (\<lparr>status = JStr ''APPROVED'',
                reason = JStr ''Qualifies for demo fast-track approval'',
                metadata = Some [(''fastTracked'', JBool True), (''checkedAt'', JStr (isoNow rt))]\<rparr>,
               demoLog @ [''Fast-track approved leave for '' @ employeeId request])
         else (\<lparr>status = JStr ''PENDING'',
                reason = JStr ''Does not meet fast-track criteria'',
                metadata = None\<rparr>,
               demoLog))"

text \<open>A fast-track approval: status \<^verbatim>\<open>APPROVED\<close> with \<^verbatim>\<open>metadata.fastTracked = true\<close>.\<close>

definition fast_tracked :: "HRDecision \<Rightarrow> bool" where
  "fast_tracked d =
     (status d = JStr ''APPROVED'' \<and>
      (case metadata d of None \<Rightarrow> False | Some m \<Rightarrow> map_of m ''fastTracked'' = Some (JBool True)))"

section \<open>EmergencyOverrideAgent (agents/hackathon/emergencyOverride.ts)\<close>

text \<open>What \<^verbatim>\<open>auditService.logOverride\<close> receives; the agent's state is the list of them.\<close>

record override_record =
  ov_requestId :: string
  ov_managerId :: string
  ov_justification :: string
  ov_timestamp :: string

definition isAuthorizedForOverride :: "HRManager \<Rightarrow> bool" where
  "isAuthorizedForOverride manager = (clearanceLevel manager \<ge> 3)"

definition forceApprove ::
  "runtime \<Rightarrow> LeaveRequest \<Rightarrow> HRManager \<Rightarrow> string \<Rightarrow> override_record list
     \<Rightarrow> (exn + HRDecision) \<times> override_record list" where
  "forceApprove rt request manager justification auditService =
     (if \<not> isAuthorizedForOverride manager
      then (Inl (Error ''Manager not authorized for emergency overrides''), auditService)
      else (Inr \<lparr>status = JStr ''APPROVED'',
                 reason = JStr (''Emergency override: '' @ justification),
                 metadata = Some [(''overriddenBy'', JStr (managerName manager)),
                                  (''normalPolicy'', JStr ''Bypassed for demo purposes'')]\<rparr>,
            auditService @ [\<lparr>ov_requestId = requestId request,
                              ov_managerId = managerId manager,
                              ov_justification = justification,
                              ov_timestamp = isoNow rt\<rparr>]))"

section \<open>BaseAgent (agents/baseAgent.ts)\<close>

text \<open>The agent's state is its audit log, a list of the events passed to \<^verbatim>\<open>auditLogger.log\<close>.\<close>

definition validateRequest :: "LeaveRequest \<Rightarrow> exn option" where
  "validateRequest request =
     (if \<not> truthy (startDate request) \<or> \<not> truthy (endDate request)
      then Some (Error ''Missing required dates in leave request'')
      else if date_gt (new_Date (startDate request)) (new_Date (endDate request))
      then Some (Error ''Start date cannot be after end date'')
      else None)"

definition logDecision :: "runtime \<Rightarrow> HRDecision \<Rightarrow> string \<Rightarrow> string \<Rightarrow> jsval list \<Rightarrow> jsval list" where
  "logDecision rt decision ctxRequestId agentType auditLogger =
     auditLogger @
       [JObj [(''event'', JStr ''LEAVE_DECISION''),
              (''entityId'', JStr ctxRequestId),
              (''metadata'', JObj [(''agent'', JStr agentType),
                                   (''status'', status decision),
                                   (''reason'', reason decision),
                                   (''timestamp'', JStr (isoNow rt))])]]"

text \<open>
  The loop of \<^verbatim>\<open>BaseAgent.calculateBusinessDays\<close>: it counts the days from \<open>start\<close> to
  \<open>end\<close>, both included, that are neither Sunday nor Saturday.  \<^verbatim>\<open>setDate(getDate() + 1)\<close>
  moves the cursor one calendar day on, which is \<open>millisecondsPerDay\<close> in UTC.  With an
  invalid date on either side the loop condition is false at once and the count is 0.
\<close>

function businessDaysLoop :: "int \<Rightarrow> int \<Rightarrow> nat \<Rightarrow> nat" where
  "businessDaysLoop current endT count =
     (if current \<le> endT
      then businessDaysLoop (current + millisecondsPerDay) endT
             (if getDay current \<noteq> 0 \<and> getDay current \<noteq> 6 then count + 1 else count)
      else count)"
  by pat_completeness auto
termination
  by (relation "measure (\<lambda>(current, endT, count). nat (endT - current + 1))")
     (auto simp: millisecondsPerDay_def)

fun BaseAgent_calculateBusinessDays :: "jsdate \<Rightarrow> jsdate \<Rightarrow> nat" where
  "BaseAgent_calculateBusinessDays (TimeValue s) (TimeValue e) = businessDaysLoop s e 0"
| "BaseAgent_calculateBusinessDays s e = 0"

definition errorMessageOf :: "exn \<Rightarrow> string \<Rightarrow> string" where
  "errorMessageOf err fallback = (case err of Error m \<Rightarrow> m | NonError \<Rightarrow> fallback)"


section \<open>Exceptions as values\<close>

text \<open>
  Sequencing of steps that may throw, a \<^verbatim>\<open>try { ... } catch { ... }\<close> block, and
  \<^verbatim>\<open>Array.prototype.map\<close> with a callback that may throw: the first exception ends the
  traversal.
\<close>

definition bindE :: "exn + 'a \<Rightarrow> ('a \<Rightarrow> exn + 'b) \<Rightarrow> exn + 'b" where
  "bindE m f = (case m of Inl e \<Rightarrow> Inl e | Inr x \<Rightarrow> f x)"

definition catchE :: "exn + 'a \<Rightarrow> (exn \<Rightarrow> exn + 'a) \<Rightarrow> exn + 'a" where
  "catchE m h = (case m of Inl e \<Rightarrow> h e | Inr x \<Rightarrow> Inr x)"

fun mapE :: "('a \<Rightarrow> exn + 'b) \<Rightarrow> 'a list \<Rightarrow> exn + 'b list" where
  "mapE f [] = Inr []"
| "mapE f (x # xs) =
     (case f x of
        Inl e \<Rightarrow> Inl e
      | Inr y \<Rightarrow> (case mapE f xs of Inl e \<Rightarrow> Inl e | Inr ys \<Rightarrow> Inr (y # ys)))"

text \<open>\<^verbatim>\<open>v.map(f)\<close>: only an array has the method; on anything else the call is a \<^verbatim>\<open>TypeError\<close>.\<close>

definition array_map :: "(jsval \<Rightarrow> exn + jsval) \<Rightarrow> jsval \<Rightarrow> exn + jsval list" where
  "array_map f v =
     (case v of
        JArr vs \<Rightarrow> mapE f vs
      | JUndefined \<Rightarrow> Inl (Error ''Cannot read properties of undefined (reading map)'')
      | JNull \<Rightarrow> Inl (Error ''Cannot read properties of null (reading map)'')
      | _ \<Rightarrow> Inl (Error ''map is not a function''))"

definition JSON_parse_or_throw :: "runtime \<Rightarrow> string \<Rightarrow> exn + jsval" where
  "JSON_parse_or_throw rt s =
     (case JSON_parse rt s of None \<Rightarrow> Inl (Error ''SyntaxError'') | Some v \<Rightarrow> Inr v)"

section \<open>The hosted model\<close>

text \<open>
  A \<^verbatim>\<open>ChatOpenAI\<close> instance is its configuration.  A prompt is identified by the call
  site that builds it and by the values interpolated into its template; the fixed
  instruction text is not reproduced.  The provider is a function from the configuration
  and the prompt to the \<^verbatim>\<open>content\<close> of its reply, or to the exception \<^verbatim>\<open>invoke\<close> rejects
  with.  Each service keeps the list of the invocations it made.
\<close>

datatype model_name = GPT35 | GPT4

fun model_id :: "model_name \<Rightarrow> string" where
  "model_id GPT35 = ''gpt-3.5-turbo''"
| "model_id GPT4 = ''gpt-4-turbo''"

record chat_model =
  modelName :: string
  temperature :: real
  maxTokens :: "nat option"

datatype prompt =
    LeaveEvaluationPrompt real real "string list" date_field date_field "string option"
  | ComplianceScanPrompt string
  | LeaveApprovalPrompt string real date_field date_field "string option" real "string list"
  | OnboardingPrompt string string string string

type_synonym provider = "chat_model \<Rightarrow> prompt \<Rightarrow> exn + jsval"

type_synonym invocation = "chat_model \<times> prompt"

section \<open>GPTService (ai/gptService.ts)\<close>

record GPTService =
  currentModel :: model_name
  auditLog :: "jsval list"
  costLog :: "jsval list"
  invocations :: "invocation list"

record 'a GPTResponse =
  payload :: 'a
  usedModel :: string
  tokensUsed :: int
  processingTimeMs :: int

record leave_ctx =
  employeeLeaveBalance :: real
  teamCoverage :: real
  projectDeadlines :: "string list"

definition createModelInstance :: "GPTService \<Rightarrow> chat_model" where
  "createModelInstance svc =
     \<lparr>modelName = model_id (currentModel svc), temperature = 2 / 10, maxTokens = Some 1000\<rparr>"

definition parseDecisionResponse :: "runtime \<Rightarrow> GPTService \<Rightarrow> jsval \<Rightarrow> exn + HRDecision" where
  "parseDecisionResponse rt svc responseContent =
     catchE
       (bindE (case responseContent of
                 JStr s \<Rightarrow> JSON_parse_or_throw rt s
               | other \<Rightarrow> Inr responseContent)
          (\<lambda>content.
             bindE (get_prop content ''decision'') (\<lambda>decision.
             bindE (get_prop content ''reason'') (\<lambda>why.
             bindE (get_prop content ''confidence'') (\<lambda>confidence.
               Inr \<lparr>status = decision,
                    reason = why,
                    metadata = Some [(''confidence'', confidence),
                                     (''model'', JStr (model_id (currentModel svc)))]\<rparr>)))))
       (\<lambda>err. Inl (Error (''Failed to parse AI response: '' @ template rt responseContent)))"

definition parseComplianceResponse :: "runtime \<Rightarrow> jsval \<Rightarrow> exn + jsval list" where
  "parseComplianceResponse rt responseContent =
     catchE
       (bindE (case responseContent of
                 JStr s \<Rightarrow> JSON_parse_or_throw rt s
               | other \<Rightarrow> Inr responseContent)
          (\<lambda>content.
             bindE (get_prop content ''issues'')
               (array_map (\<lambda>issue.
                  bindE (get_prop issue ''type'') (\<lambda>ty.
                  bindE (get_prop issue ''severity'') (\<lambda>severity.
                  bindE (get_prop issue ''description'') (\<lambda>description.
                    Inr (JObj [(''type'', ty),
                               (''severity'', severity),
                               (''description'', description),
                               (''detectedAt'', JStr (isoNow rt))]))))))))
       (\<lambda>err. Inl (Error (''Failed to parse compliance response: '' @ template rt responseContent)))"

text \<open>\<^verbatim>\<open>Math.ceil(JSON.stringify(data).length / 4)\<close>, with the data rendered as a value.\<close>

definition estimateTokens :: "runtime \<Rightarrow> jsval \<Rightarrow> int" where
  "estimateTokens rt v = \<lceil>real (length (JSON_stringify rt 0 v)) / 4\<rceil>"

definition createResponse ::
  "runtime \<Rightarrow> ('a \<Rightarrow> jsval) \<Rightarrow> 'a \<Rightarrow> GPTService \<Rightarrow> 'a GPTResponse \<times> GPTService" where
  "createResponse rt enc result svc =
     (let estimatedTokens = estimateTokens rt (enc result)
      in (\<lparr>payload = result,
           usedModel = model_id (currentModel svc),
           tokensUsed = estimatedTokens,
           processingTimeMs = elapsedMs rt\<rparr>,
          svc\<lparr>costLog := costLog svc @
                 [JObj [(''model'', JStr (model_id (currentModel svc))),
                        (''tokens'', JNum (real_of_int estimatedTokens)),
                        (''operation'', JStr (callerName rt))]]\<rparr>))"

text \<open>\<^verbatim>\<open>handleError\<close> of the service logs and then always throws a new error.\<close>

definition GPTService_handleError :: "exn \<Rightarrow> string \<Rightarrow> GPTService \<Rightarrow> exn \<times> GPTService" where
  "GPTService_handleError err ctx svc =
     (let errorMessage = errorMessageOf err ''Unknown error''
      in (Error (''[GPTService] '' @ errorMessage),
          svc\<lparr>auditLog := auditLog svc @
                 [JObj [(''event'', JStr ''GPT_ERROR''),
                        (''context'', JStr ctx),
                        (''error'', JStr errorMessage),
                        (''model'', JStr (model_id (currentModel svc)))]]\<rparr>))"

definition decision_value :: "HRDecision \<Rightarrow> jsval" where
  "decision_value d =
     JObj ([(''status'', status d), (''reason'', reason d)] @
           (case metadata d of None \<Rightarrow> [] | Some m \<Rightarrow> [(''metadata'', JObj m)]))"

definition leaveEvaluationMessages :: "leave_ctx \<Rightarrow> LeaveRequest \<Rightarrow> prompt" where
  "leaveEvaluationMessages ctx request =
     LeaveEvaluationPrompt (employeeLeaveBalance ctx) (teamCoverage ctx) (projectDeadlines ctx)
       (startDate request) (endDate request) (requestReason request)"

text \<open>
  \<^verbatim>\<open>gptService.ts\<close> imports \<^verbatim>\<open>ChatOpenAI\<close>, \<^verbatim>\<open>OpenAI\<close>, \<^verbatim>\<open>BaseCache\<close>, the three result
  types, \<^verbatim>\<open>AuditLogger\<close> and \<^verbatim>\<open>CostTracker\<close>, and nothing else.  The identifiers
  \<^verbatim>\<open>SystemMessage\<close> and \<^verbatim>\<open>HumanMessage\<close> that \<^verbatim>\<open>createSystemMessage\<close> and
  \<^verbatim>\<open>createHumanMessage\<close> construct are therefore unbound in this file, and evaluating
  \<^verbatim>\<open>new SystemMessage(content)\<close> raises a \<^verbatim>\<open>ReferenceError\<close>, whatever the content.  A
  prompt value stands for the contents of both messages of a call site.
\<close>

definition createSystemMessage :: "prompt \<Rightarrow> exn + prompt" where
  "createSystemMessage content = Inl (Error ''SystemMessage is not defined'')"

definition createHumanMessage :: "prompt \<Rightarrow> exn + prompt" where
  "createHumanMessage content = Inl (Error ''HumanMessage is not defined'')"

text \<open>
  The \<^verbatim>\<open>try\<close> block of \<^verbatim>\<open>evaluateLeaveRequest\<close>: the two messages are built first, the
  system message before the human one; only then is the model invoked, its reply parsed
  and the response created.  The block yields its result or the exception that left it,
  with the service as it was at that point.
\<close>

definition evaluateLeaveRequest_try ::
  "runtime \<Rightarrow> provider \<Rightarrow> chat_model \<Rightarrow> LeaveRequest \<Rightarrow> leave_ctx \<Rightarrow> GPTService
     \<Rightarrow> (exn + HRDecision GPTResponse) \<times> GPTService" where
  "evaluateLeaveRequest_try rt llm model request ctx svc =
     (case bindE (createSystemMessage (leaveEvaluationMessages ctx request))
             (\<lambda>systemMessage. createHumanMessage (leaveEvaluationMessages ctx request)) of
        Inl err \<Rightarrow> (Inl err, svc)
      | Inr messages \<Rightarrow>
          (let svc1 = svc\<lparr>invocations := invocations svc @ [(model, messages)]\<rparr>
           in case bindE (llm model messages) (parseDecisionResponse rt svc1) of
                Inl err \<Rightarrow> (Inl err, svc1)
              | Inr result \<Rightarrow>
                  (let (response, svc2) = createResponse rt decision_value result svc1
                   in (Inr response, svc2))))"

text \<open>
  \<^verbatim>\<open>evaluateLeaveRequest\<close>: the model instance, the \<^verbatim>\<open>try\<close> block, and the \<^verbatim>\<open>catch\<close>
  block, which hands the exception to \<^verbatim>\<open>handleError\<close>; that logs and throws, so the
  \<^verbatim>\<open>throw error\<close> after it is never reached.
\<close>

definition GPTService_evaluateLeaveRequest ::
  "runtime \<Rightarrow> provider \<Rightarrow> LeaveRequest \<Rightarrow> leave_ctx \<Rightarrow> GPTService
     \<Rightarrow> (exn + HRDecision GPTResponse) \<times> GPTService" where
  "GPTService_evaluateLeaveRequest rt llm request ctx svc =
     (let model = createModelInstance svc;
          (outcome, svc1) = evaluateLeaveRequest_try rt llm model request ctx svc
      in case outcome of
           Inr response \<Rightarrow> (Inr response, svc1)
         | Inl err \<Rightarrow>
             (let (thrown, svc2) = GPTService_handleError err ''leave-request-evaluation'' svc1
              in (Inl thrown, svc2)))"

text \<open>
  The \<^verbatim>\<open>try\<close> block of \<^verbatim>\<open>scanForComplianceIssues\<close>: the arguments of \<^verbatim>\<open>model.invoke\<close>,
  the system message first, are evaluated before the call.
\<close>

definition scanForComplianceIssues_try ::
  "runtime \<Rightarrow> provider \<Rightarrow> chat_model \<Rightarrow> jsval \<Rightarrow> GPTService
     \<Rightarrow> (exn + jsval list GPTResponse) \<times> GPTService" where
  "scanForComplianceIssues_try rt llm model hrData svc =
     (case bindE (createSystemMessage (ComplianceScanPrompt (JSON_stringify rt 2 hrData)))
             (\<lambda>systemMessage. createHumanMessage (ComplianceScanPrompt (JSON_stringify rt 2 hrData))) of
        Inl err \<Rightarrow> (Inl err, svc)
      | Inr messages \<Rightarrow>
          (let svc1 = svc\<lparr>invocations := invocations svc @ [(model, messages)]\<rparr>
           in case bindE (llm model messages) (parseComplianceResponse rt) of
                Inl err \<Rightarrow> (Inl err, svc1)
              | Inr result \<Rightarrow>
                  (let (response, svc2) = createResponse rt JArr result svc1
                   in (Inr response, svc2))))"

definition GPTService_scanForComplianceIssues ::
  "runtime \<Rightarrow> provider \<Rightarrow> jsval \<Rightarrow> GPTService
     \<Rightarrow> (exn + jsval list GPTResponse) \<times> GPTService" where
  "GPTService_scanForComplianceIssues rt llm hrData svc =
     (let model = createModelInstance svc;
          (outcome, svc1) = scanForComplianceIssues_try rt llm model hrData svc
      in case outcome of
           Inr response \<Rightarrow> (Inr response, svc1)
         | Inl err \<Rightarrow>
             (let (thrown, svc2) = GPTService_handleError err ''compliance-scan'' svc1
              in (Inl thrown, svc2)))"

definition upgradeToGPT4 :: "runtime \<Rightarrow> GPTService \<Rightarrow> GPTService" where
  "upgradeToGPT4 rt svc =
     (if processEnv rt ''ENABLE_GPT4'' = Some ''true''
      then svc\<lparr>currentModel := GPT4,
               auditLog := auditLog svc @
                 [JObj [(''event'', JStr ''MODEL_UPGRADE''),
                        (''metadata'', JObj [(''newModel'', JStr ''gpt-4-turbo'')])]]\<rparr>
      else svc)"

section \<open>LeaveApprovalWorkflow (ai/workflows/leaveApproval.ts)\<close>

text \<open>
  The workflow extends \<^verbatim>\<open>BaseWorkflow\<close>, whose file is not among the sources.  The two
  inherited members that \<^verbatim>\<open>evaluate\<close> calls are therefore parameters:
  \<open>validateInputs\<close> returns the exception it throws, if any, and \<open>handleError\<close>
  returns a decision or throws in its turn.  Unlike the service, this file imports
  \<^verbatim>\<open>HumanMessage\<close> and \<^verbatim>\<open>SystemMessage\<close>, so its messages are built without failure.
\<close>

record BaseWorkflow =
  validateInputs :: "LeaveRequest \<Rightarrow> Employee \<Rightarrow> exn option"
  handleError :: "exn \<Rightarrow> exn + HRDecision"

record workflow_ctx =
  wf_teamCoverage :: real
  criticalProjects :: "string list"

definition LeaveApprovalWorkflow_model :: chat_model where
  "LeaveApprovalWorkflow_model =
     \<lparr>modelName = ''gpt-3.5-turbo'', temperature = 2 / 10, maxTokens = Some 500\<rparr>"

text \<open>\<^verbatim>\<open>JSON.parse(content)\<close> converts a content that is not a string to one first.\<close>

definition parseResponse :: "runtime \<Rightarrow> jsval \<Rightarrow> exn + HRDecision" where
  "parseResponse rt content =
     catchE
       (bindE (JSON_parse_or_throw rt (template rt content)) (\<lambda>result.
          bindE (get_prop result ''status'') (\<lambda>st.
          bindE (get_prop result ''reason'') (\<lambda>why.
          bindE (get_prop result ''confidence'') (\<lambda>confidence.
            Inr \<lparr>status = st,
                 reason = why,
                 metadata = Some [(''confidence'', confidence),
                                  (''evaluatedAt'', JStr (isoNow rt))]\<rparr>)))))
       (\<lambda>e. Inl (Error (''Failed to parse AI response: '' @ template rt content)))"

definition leaveApprovalMessages :: "Employee \<Rightarrow> LeaveRequest \<Rightarrow> workflow_ctx \<Rightarrow> prompt" where
  "leaveApprovalMessages employee request ctx =
     LeaveApprovalPrompt (empName employee) (leaveBalance employee)
       (startDate request) (endDate request) (requestReason request)
       (wf_teamCoverage ctx) (criticalProjects ctx)"

definition LeaveApprovalWorkflow_evaluate ::
  "runtime \<Rightarrow> BaseWorkflow \<Rightarrow> provider \<Rightarrow> LeaveRequest \<Rightarrow> Employee \<Rightarrow> workflow_ctx
     \<Rightarrow> invocation list \<Rightarrow> (exn + HRDecision) \<times> invocation list" where
  "LeaveApprovalWorkflow_evaluate rt base llm request employee ctx calls =
     (case validateInputs base request employee of
        Some err \<Rightarrow> (handleError base err, calls)
      | None \<Rightarrow>
          (let messages = leaveApprovalMessages employee request ctx;
               calls1 = calls @ [(LeaveApprovalWorkflow_model, messages)]
           in case bindE (llm LeaveApprovalWorkflow_model messages) (parseResponse rt) of
                Inr decision \<Rightarrow> (Inr decision, calls1)
              | Inl err \<Rightarrow> (handleError base err, calls1)))"

section \<open>ComplianceCheckWorkflow and OnboardingWorkflow (ai/workflows)\<close>

text \<open>
  \<^verbatim>\<open>{...issue}\<close>: the own enumerable properties of the value.  An object gives its
  properties, an array its elements and a string its characters under their indices,
  anything else nothing.
\<close>

fun digit_char :: "nat \<Rightarrow> char" where
  "digit_char n = ''0123456789'' ! (n mod 10)"

fun show_nat :: "nat \<Rightarrow> string" where
  "show_nat n = (if n < 10 then [digit_char n] else show_nat (n div 10) @ [digit_char n])"

definition indexed :: "jsval list \<Rightarrow> (string \<times> jsval) list" where
  "indexed vs = zip (map show_nat [0..<length vs]) vs"

fun spread :: "jsval \<Rightarrow> (string \<times> jsval) list" where
  "spread (JObj kvs) = kvs"
| "spread (JArr vs) = indexed vs"
| "spread (JStr s) = indexed (map (\<lambda>c. JStr [c]) s)"
| "spread v = []"

text \<open>
  The detection chain (prompt, model and string output parser) is built from library
  parts in the constructor; it maps the serialised data to the reply text or rejects.
  The call stands before the \<^verbatim>\<open>try\<close> block.  The chain is a parameter, and what is
  proved of \<^verbatim>\<open>scan\<close> is proved of every chain.  The chain that the constructor builds
  is one of those that reject: its message step constructs \<^verbatim>\<open>SystemMessage\<close> and
  \<^verbatim>\<open>HumanMessage\<close>, which \<^verbatim>\<open>complianceCheck.ts\<close> does not import either.
\<close>

definition ComplianceCheckWorkflow_scan ::
  "runtime \<Rightarrow> (string \<Rightarrow> exn + string) \<Rightarrow> jsval \<Rightarrow> exn + jsval list" where
  "ComplianceCheckWorkflow_scan rt detectionChain hrData =
     (let input = JSON_stringify rt 2 hrData
      in case detectionChain input of
           Inl err \<Rightarrow> Inl err
         | Inr response \<Rightarrow>
             catchE
               (bindE (JSON_parse_or_throw rt response) (\<lambda>result.
                  bindE (get_prop result ''issues'')
                    (array_map (\<lambda>issue.
                       Inr (JObj (set_prop ''status'' (JStr ''OPEN'')
                                   (set_prop ''detectedAt'' (JStr (isoNow rt)) (spread issue))))))))
               (\<lambda>e. Inl (Error (''Failed to parse compliance scan results: '' @ response))))"






section \<open>The specification's own notions\<close>

text \<open>
  The specification's fast-track condition, in its words: the business days between the
  two dates are at most 3 and the demo mode flag is enabled.  Business days are counted
  as \<^verbatim>\<open>BaseAgent.calculateBusinessDays\<close> counts them, which is the count the specification's
  example uses (Tuesday to Wednesday is 2 business days).
\<close>

definition spec_fast_track :: "bool \<Rightarrow> LeaveRequest \<Rightarrow> bool" where
  "spec_fast_track demoMode request =
     (int (BaseAgent_calculateBusinessDays (new_Date (startDate request)) (new_Date (endDate request)))
        \<le> 3 \<and> demoMode)"

text \<open>
  The decision schema that both leave prompts ask the model for: an object with the
  decision under \<open>key\<close> (\<^verbatim>\<open>decision\<close> for the service, \<^verbatim>\<open>status\<close> for the workflow), one of
  \<^verbatim>\<open>"APPROVED"|"DENIED"|"FLAGGED"\<close>, a string \<^verbatim>\<open>reason\<close> and a number \<^verbatim>\<open>confidence\<close>.
\<close>

definition matches_decision_schema :: "string \<Rightarrow> jsval \<Rightarrow> bool" where
  "matches_decision_schema key v =
     (case v of
        JObj kvs \<Rightarrow>
          (case map_of kvs key of
             Some (JStr d) \<Rightarrow> d = ''APPROVED'' \<or> d = ''DENIED'' \<or> d = ''FLAGGED''
           | _ \<Rightarrow> False) \<and>
          (case map_of kvs ''reason'' of Some (JStr r) \<Rightarrow> True | _ \<Rightarrow> False) \<and>
          (case map_of kvs ''confidence'' of Some (JNum c) \<Rightarrow> True | _ \<Rightarrow> False)
      | _ \<Rightarrow> False)"

text \<open>\<^verbatim>\<open>decision.metadata?.confidence\<close> and the confidence the reply carried.\<close>

definition confidence_of :: "HRDecision \<Rightarrow> jsval" where
  "confidence_of d =
     (case metadata d of
        None \<Rightarrow> JUndefined
      | Some m \<Rightarrow> (case map_of m ''confidence'' of None \<Rightarrow> JUndefined | Some c \<Rightarrow> c))"

definition reply_confidence :: "jsval \<Rightarrow> jsval" where
  "reply_confidence v = (case get_prop v ''confidence'' of Inl e \<Rightarrow> JUndefined | Inr c \<Rightarrow> c)"

text \<open>The two requirements of the specification on a mapped decision.\<close>

definition status_in_enum :: "HRDecision \<Rightarrow> bool" where
  "status_in_enum d =
     (status d = JStr ''APPROVED'' \<or> status d = JStr ''DENIED'' \<or> status d = JStr ''FLAGGED'' \<or>
      status d = JStr ''PENDING'' \<or> status d = JStr ''ERROR'')"

definition confidence_in_unit_interval :: "HRDecision \<Rightarrow> bool" where
  "confidence_in_unit_interval d =
     (case confidence_of d of
        JUndefined \<Rightarrow> True
      | JNum c \<Rightarrow> 0 \<le> c \<and> c \<le> 1
      | _ \<Rightarrow> False)"

text \<open>
  Modelled from the spec: \<^verbatim>\<open>BaseWorkflow\<close> (\<^verbatim>\<open>ai/workflows/baseWorkflow.ts\<close>), whose
  \<^verbatim>\<open>validateInputs\<close> and \<^verbatim>\<open>handleError\<close> the leave workflow inherits, is not among the
  sources.  The specification says of validation that malformed request dates and missing
  required fields are validation errors raised before any external call, and that a
  request whose start date is after its end date must fail validation; of the handler it
  says that the leave-decision workflows convert a caught failure into a terminal record
  with status \<^verbatim>\<open>ERROR\<close> rather than re-raising it.  The specification gives no message
  texts: the two validation messages and the reason of the record, which is the failure's
  message, are this model's.
\<close>

definition BaseWorkflow_spec :: BaseWorkflow where
  "BaseWorkflow_spec =
     \<lparr>validateInputs =
        (\<lambda>request employee.
           case (new_Date (startDate request), new_Date (endDate request)) of
             (TimeValue s, TimeValue e) \<Rightarrow>
               if s > e then Some (Error ''Validation failed: start date is after end date'')
               else None
           | _ \<Rightarrow> Some (Error ''Validation failed: missing or malformed dates'')),
      handleError =
        (\<lambda>err. Inr \<lparr>status = JStr ''ERROR'',
                       reason = JStr (errorMessageOf err ''Unknown error''),
                       metadata = None\<rparr>)\<rparr>"

section \<open>Concrete inputs\<close>

text \<open>
  A runtime for the examples.  Its \<^verbatim>\<open>JSON.parse\<close> is tabulated on the four replies the
  examples use; the only other text the examples parse is not JSON.  Its
  \<^verbatim>\<open>JSON.stringify\<close> and number rendering are constant: they only feed the token estimate
  and the prompts, which no example looks at.
\<close>

definition JSON_parse_table :: "string \<Rightarrow> jsval option" where
  \<open>JSON_parse_table s =
     (if s = ''{"decision":"APPROVED","reason":"ok","confidence":7}''
      then Some (JObj [(''decision'', JStr ''APPROVED''), (''reason'', JStr ''ok''),
                       (''confidence'', JNum 7)])
      else if s = ''{"decision":"APPROVED","reason":"enough balance","confidence":0.9}''
      then Some (JObj [(''decision'', JStr ''APPROVED''), (''reason'', JStr ''enough balance''),
                       (''confidence'', JNum (9 / 10))])
      else if s = ''{"status":"DENIED","reason":"no coverage","confidence":0.4}''
      then Some (JObj [(''status'', JStr ''DENIED''), (''reason'', JStr ''no coverage''),
                       (''confidence'', JNum (4 / 10))])
      else if s = ''{"issues":[{"type":"HOURS","severity":"HIGH","description":"over 40h"}]}''
      then Some (JObj [(''issues'', JArr [JObj [(''type'', JStr ''HOURS''),
                                                (''severity'', JStr ''HIGH''),
                                                (''description'', JStr ''over 40h'')]])])
      else None)\<close>

definition sample_runtime :: runtime where
  "sample_runtime =
     \<lparr>JSON_parse = JSON_parse_table,
      JSON_stringify = (\<lambda>n v. ''{}''),
      Number_toString = (\<lambda>r. ''0''),
      isoNow = ''2024-01-01T09:00:00.000Z'',
      elapsedMs = 120,
      callerName = ''at GPTService.evaluateLeaveRequest'',
      processEnv = Map.empty\<rparr>"

definition gpt4_runtime :: runtime where
  "gpt4_runtime = sample_runtime\<lparr>processEnv := [''ENABLE_GPT4'' \<mapsto> ''true'']\<rparr>"

definition flu_request :: LeaveRequest where
  "flu_request =
     \<lparr>requestId = ''req-1'', employeeId = ''emp-7'',
      startDate = utc_date 2024 1 2, endDate = utc_date 2024 1 3,
      requestReason = Some ''flu''\<rparr>"

definition week_request :: LeaveRequest where
  "week_request =
     \<lparr>requestId = ''req-3'', employeeId = ''emp-7'',
      startDate = utc_date 2024 1 2, endDate = utc_date 2024 1 9,
      requestReason = None\<rparr>"

definition thursday_to_monday :: LeaveRequest where
  "thursday_to_monday =
     \<lparr>requestId = ''req-4'', employeeId = ''emp-7'',
      startDate = utc_date 2024 1 4, endDate = utc_date 2024 1 8,
      requestReason = None\<rparr>"

definition late_request :: LeaveRequest where
  "late_request =
     \<lparr>requestId = ''req-2'', employeeId = ''emp-7'',
      startDate = utc_date 2024 1 5, endDate = utc_date 2024 1 2,
      requestReason = None\<rparr>"


definition junior_manager :: HRManager where
  "junior_manager = \<lparr>managerId = ''mgr-2'', managerName = ''Kofi'', clearanceLevel = 2\<rparr>"

definition senior_manager :: HRManager where
  "senior_manager = \<lparr>managerId = ''mgr-3'', managerName = ''Zola'', clearanceLevel = 3\<rparr>"

definition svc0 :: GPTService where
  "svc0 = \<lparr>currentModel = GPT35, auditLog = [], costLog = [], invocations = []\<rparr>"

definition sample_ctx :: leave_ctx where
  "sample_ctx = \<lparr>employeeLeaveBalance = 10, teamCoverage = 80, projectDeadlines = []\<rparr>"


definition approving_provider :: provider where
  \<open>approving_provider m p =
     Inr (JStr ''{"decision":"APPROVED","reason":"enough balance","confidence":0.9}'')\<close>



section \<open>FastApprovalAgent: when a request is fast-tracked\<close>

text \<open>
  C8.  The specification's example: a request from 2024-01-02, a Tuesday, to 2024-01-03,
  a Wednesday, with reason "flu".  \<^verbatim>\<open>FastApprovalAgent.evaluate\<close> returns status
  \<^verbatim>\<open>APPROVED\<close> with \<^verbatim>\<open>metadata.fastTracked = true\<close>, for every runtime, every request and
  employee identifier and every state of the demo log.  The agent takes no mode flag, so
  the result is the same with demo mode on.
\<close>

theorem fast_approval_flu_example:
  "getDay (days_from_civil 2024 1 2 * millisecondsPerDay) = 2 \<and>
   getDay (days_from_civil 2024 1 3 * millisecondsPerDay) = 3 \<and>
   fast_tracked
     (fst (FastApprovalAgent_evaluate rt
             \<lparr>requestId = rid, employeeId = eid,
              startDate = utc_date 2024 1 2, endDate = utc_date 2024 1 3,
              requestReason = Some ''flu''\<rparr> demoLog)) \<and>
   status
     (fst (FastApprovalAgent_evaluate rt
             \<lparr>requestId = rid, employeeId = eid,
              startDate = utc_date 2024 1 2, endDate = utc_date 2024 1 3,
              requestReason = Some ''flu''\<rparr> demoLog)) = JStr ''APPROVED''"
  by (simp add: FastApprovalAgent_evaluate_def checkLeaveDuration_def checkCalendarConflicts_def
      fast_tracked_def utc_date_def days_from_civil_def millisecondsPerDay_def getDay_def
      Math_round_def FAST_APPROVAL_THRESHOLD_DAYS_def Let_def)

text \<open>
  C9.  \<^verbatim>\<open>FastApprovalAgent.evaluate\<close> has no failing branch: for every request, valid
  dates or not, it returns either the \<^verbatim>\<open>APPROVED\<close> decision with its reason and the
  \<^verbatim>\<open>fastTracked\<close> metadata, or the \<^verbatim>\<open>PENDING\<close> decision with its reason.  The status is
  therefore never \<^verbatim>\<open>DENIED\<close>, \<^verbatim>\<open>FLAGGED\<close> or \<^verbatim>\<open>ERROR\<close>.
\<close>

theorem fast_approval_approved_or_pending:
  "(let d = fst (FastApprovalAgent_evaluate rt request demoLog) in
     (status d = JStr ''APPROVED'' \<and> reason d = JStr ''Qualifies for demo fast-track approval'' \<and>
      metadata d = Some [(''fastTracked'', JBool True), (''checkedAt'', JStr (isoNow rt))]) \<or>
     (status d = JStr ''PENDING'' \<and> reason d = JStr ''Does not meet fast-track criteria'' \<and>
      metadata d = None))"
  by (simp add: FastApprovalAgent_evaluate_def Let_def)

text \<open>
  C1, as the specification states it, fails.  With the demo mode flag off the
  specification's condition is false, yet the Tuesday-to-Wednesday request is
  fast-tracked: the agent reads no flag.
\<close>

theorem fast_track_without_demo_mode_counterexample:
  "fast_tracked (fst (FastApprovalAgent_evaluate sample_runtime flu_request [])) \<and>
   \<not> spec_fast_track False flu_request"
  by (simp add: FastApprovalAgent_evaluate_def checkLeaveDuration_def checkCalendarConflicts_def
      fast_tracked_def flu_request_def utc_date_def days_from_civil_def millisecondsPerDay_def
      Math_round_def FAST_APPROVAL_THRESHOLD_DAYS_def Let_def spec_fast_track_def)

text \<open>
  C1, amended.  \<^verbatim>\<open>FastApprovalAgent.evaluate\<close> returns a fast-track approval if and only
  if the day count of the file's \<^verbatim>\<open>calculateBusinessDays\<close> helper for the two dates is a
  number that is at most 3; in every other case the status is \<^verbatim>\<open>PENDING\<close>.  No demo mode
  flag takes part in the decision.
\<close>

theorem fast_track_iff_day_count_le_threshold:
  "fast_tracked (fst (FastApprovalAgent_evaluate rt request demoLog)) =
     (\<exists>n. calculateBusinessDays (new_Date (startDate request)) (new_Date (endDate request)) = Some n
          \<and> n \<le> FAST_APPROVAL_THRESHOLD_DAYS)
   \<and> status (fst (FastApprovalAgent_evaluate rt request demoLog)) =
     (if fast_tracked (fst (FastApprovalAgent_evaluate rt request demoLog))
      then JStr ''APPROVED'' else JStr ''PENDING'')"
  by (auto simp: FastApprovalAgent_evaluate_def checkLeaveDuration_def checkCalendarConflicts_def
      fast_tracked_def Let_def split: option.splits)

text \<open>
  C1, amended, on two requests: Tuesday to Wednesday (day count 1, approved) and Tuesday
  to the Tuesday after (day count 7, pending).
\<close>

theorem fast_track_iff_day_count_le_threshold_witness:
  "calculateBusinessDays (new_Date (startDate flu_request)) (new_Date (endDate flu_request)) = Some 1 \<and>
   status (fst (FastApprovalAgent_evaluate sample_runtime flu_request [])) = JStr ''APPROVED'' \<and>
   calculateBusinessDays (new_Date (startDate week_request)) (new_Date (endDate week_request)) = Some 7 \<and>
   status (fst (FastApprovalAgent_evaluate sample_runtime week_request [])) = JStr ''PENDING''"
  using fast_track_iff_day_count_le_threshold [of sample_runtime flu_request "[]"]
    fast_track_iff_day_count_le_threshold [of sample_runtime week_request "[]"]
  by (simp add: flu_request_def week_request_def utc_date_def days_from_civil_def
      millisecondsPerDay_def Math_round_def FAST_APPROVAL_THRESHOLD_DAYS_def)

text \<open>
  The helper's count is the difference in calendar days.  From Thursday 2024-01-04 to
  Monday 2024-01-08 \<^verbatim>\<open>BaseAgent.calculateBusinessDays\<close> counts 3 business days, the helper
  counts 4, and the request stays pending.
\<close>

lemma fast_approval_counts_calendar_days:
  "BaseAgent_calculateBusinessDays (new_Date (startDate thursday_to_monday))
     (new_Date (endDate thursday_to_monday)) = 3 \<and>
   calculateBusinessDays (new_Date (startDate thursday_to_monday))
     (new_Date (endDate thursday_to_monday)) = Some 4 \<and>
   status (fst (FastApprovalAgent_evaluate sample_runtime thursday_to_monday [])) = JStr ''PENDING''"
  by (simp add: thursday_to_monday_def FastApprovalAgent_evaluate_def checkLeaveDuration_def
      checkCalendarConflicts_def utc_date_def days_from_civil_def millisecondsPerDay_def
      Math_round_def FAST_APPROVAL_THRESHOLD_DAYS_def Let_def getDay_def)

section \<open>EmergencyOverrideAgent: authorization and audit\<close>

text \<open>
  C5.  When the manager's clearance level is below 3, \<^verbatim>\<open>forceApprove\<close> fails with the
  authorization error and leaves the audit records as they were.  When the level is 3 or
  more, it returns an \<^verbatim>\<open>APPROVED\<close> decision and the audit records have gained one record
  with the request id, the manager id and the justification.
\<close>

theorem forceApprove_authorization_and_audit:
  "(clearanceLevel manager < 3 \<longrightarrow>
      forceApprove rt request manager justification auditService =
        (Inl (Error ''Manager not authorized for emergency overrides''), auditService)) \<and>
   (clearanceLevel manager \<ge> 3 \<longrightarrow>
      (\<exists>d. forceApprove rt request manager justification auditService =
             (Inr d, auditService @ [\<lparr>ov_requestId = requestId request,
                                       ov_managerId = managerId manager,
                                       ov_justification = justification,
                                       ov_timestamp = isoNow rt\<rparr>]) \<and>
           status d = JStr ''APPROVED''))"
  by (simp add: forceApprove_def isAuthorizedForOverride_def)

text \<open>C5 on a manager of clearance level 2 and on one of level 3.\<close>

theorem forceApprove_authorization_and_audit_witness:
  "clearanceLevel junior_manager < 3 \<and>
   forceApprove sample_runtime flu_request junior_manager ''urgent'' [] =
     (Inl (Error ''Manager not authorized for emergency overrides''), []) \<and>
   clearanceLevel senior_manager \<ge> 3 \<and>
   forceApprove sample_runtime flu_request senior_manager ''urgent'' [] =
     (Inr \<lparr>status = JStr ''APPROVED'', reason = JStr ''Emergency override: urgent'',
           metadata = Some [(''overriddenBy'', JStr ''Zola''),
                            (''normalPolicy'', JStr ''Bypassed for demo purposes'')]\<rparr>,
      [\<lparr>ov_requestId = ''req-1'', ov_managerId = ''mgr-3'', ov_justification = ''urgent'',
        ov_timestamp = ''2024-01-01T09:00:00.000Z''\<rparr>])"
  using forceApprove_authorization_and_audit
          [of junior_manager sample_runtime flu_request "''urgent''" "[]"]
        forceApprove_authorization_and_audit
          [of senior_manager sample_runtime flu_request "''urgent''" "[]"]
  by (simp add: junior_manager_def senior_manager_def forceApprove_def isAuthorizedForOverride_def
      flu_request_def sample_runtime_def)

section \<open>GPTService: model selection\<close>

text \<open>
  C10.  When \<^verbatim>\<open>process.env.ENABLE_GPT4\<close> is the string \<^verbatim>\<open>true\<close>, \<^verbatim>\<open>upgradeToGPT4\<close> sets
  \<^verbatim>\<open>currentModel\<close> to \<^verbatim>\<open>gpt-4-turbo\<close> and appends one \<^verbatim>\<open>MODEL_UPGRADE\<close> event to the audit
  log, changing nothing else.  When it is anything else, or unset, the service is left
  exactly as it was.
\<close>

theorem upgradeToGPT4_effect:
  "(processEnv rt ''ENABLE_GPT4'' = Some ''true'' \<longrightarrow>
      upgradeToGPT4 rt svc =
        svc\<lparr>currentModel := GPT4,
            auditLog := auditLog svc @
              [JObj [(''event'', JStr ''MODEL_UPGRADE''),
                     (''metadata'', JObj [(''newModel'', JStr ''gpt-4-turbo'')])]]\<rparr>) \<and>
   (processEnv rt ''ENABLE_GPT4'' \<noteq> Some ''true'' \<longrightarrow> upgradeToGPT4 rt svc = svc)"
  by (simp add: upgradeToGPT4_def)

text \<open>C10 with the variable set to \<^verbatim>\<open>true\<close> and with the variable unset.\<close>

theorem upgradeToGPT4_effect_witness:
  "processEnv gpt4_runtime ''ENABLE_GPT4'' = Some ''true'' \<and>
   upgradeToGPT4 gpt4_runtime svc0 =
     \<lparr>currentModel = GPT4,
      auditLog = [JObj [(''event'', JStr ''MODEL_UPGRADE''),
                        (''metadata'', JObj [(''newModel'', JStr ''gpt-4-turbo'')])]],
      costLog = [], invocations = []\<rparr> \<and>
   processEnv sample_runtime ''ENABLE_GPT4'' \<noteq> Some ''true'' \<and>
   upgradeToGPT4 sample_runtime svc0 = svc0"
  using upgradeToGPT4_effect [of gpt4_runtime svc0] upgradeToGPT4_effect [of sample_runtime svc0]
  by (simp add: gpt4_runtime_def sample_runtime_def svc0_def)

section \<open>Parsing and mapping the model's reply\<close>

lemma matches_decision_schemaD:
  assumes "matches_decision_schema key v"
  obtains kvs d r c where "v = JObj kvs" "map_of kvs key = Some (JStr d)"
    "d = ''APPROVED'' \<or> d = ''DENIED'' \<or> d = ''FLAGGED''"
    "map_of kvs ''reason'' = Some (JStr r)" "map_of kvs ''confidence'' = Some (JNum c)"
  using assms unfolding matches_decision_schema_def
  by (auto split: jsval.splits option.splits)

lemma parseDecisionResponse_schema:
  assumes "JSON_parse rt raw = Some v" and "matches_decision_schema ''decision'' v"
  shows "\<exists>d. parseDecisionResponse rt svc (JStr raw) = Inr d \<and> status_in_enum d \<and>
              confidence_of d = reply_confidence v \<and>
              confidence_in_unit_interval d = (\<exists>c. reply_confidence v = JNum c \<and> 0 \<le> c \<and> c \<le> 1)"
proof -
  from assms(2) obtain kvs d r c where "v = JObj kvs" "map_of kvs ''decision'' = Some (JStr d)"
    "d = ''APPROVED'' \<or> d = ''DENIED'' \<or> d = ''FLAGGED''"
    "map_of kvs ''reason'' = Some (JStr r)" "map_of kvs ''confidence'' = Some (JNum c)"
    by (rule matches_decision_schemaD)
  with assms(1) show ?thesis
    by (auto simp: parseDecisionResponse_def JSON_parse_or_throw_def bindE_def catchE_def
        confidence_of_def reply_confidence_def confidence_in_unit_interval_def status_in_enum_def)
qed

lemma parseResponse_schema:
  assumes "JSON_parse rt raw = Some v" and "matches_decision_schema ''status'' v"
  shows "\<exists>d. parseResponse rt (JStr raw) = Inr d \<and> status_in_enum d \<and>
              confidence_of d = reply_confidence v \<and>
              confidence_in_unit_interval d = (\<exists>c. reply_confidence v = JNum c \<and> 0 \<le> c \<and> c \<le> 1)"
proof -
  from assms(2) obtain kvs d r c where "v = JObj kvs" "map_of kvs ''status'' = Some (JStr d)"
    "d = ''APPROVED'' \<or> d = ''DENIED'' \<or> d = ''FLAGGED''"
    "map_of kvs ''reason'' = Some (JStr r)" "map_of kvs ''confidence'' = Some (JNum c)"
    by (rule matches_decision_schemaD)
  with assms(1) show ?thesis
    by (auto simp: parseResponse_def JSON_parse_or_throw_def bindE_def catchE_def template_def
        confidence_of_def reply_confidence_def confidence_in_unit_interval_def status_in_enum_def)
qed

text \<open>
  C3, as the specification states it, fails.  The reply
  \<^verbatim>\<open>{"decision":"APPROVED","reason":"ok","confidence":7}\<close> matches the decision schema of
  the prompt, whose confidence is any number, and \<^verbatim>\<open>parseDecisionResponse\<close> maps it to a
  decision whose confidence is 7, outside the interval from 0 to 1.
\<close>

theorem decision_confidence_out_of_range_counterexample:
  \<open>matches_decision_schema ''decision''
      (JObj [(''decision'', JStr ''APPROVED''), (''reason'', JStr ''ok''), (''confidence'', JNum 7)]) \<and>
    parseDecisionResponse sample_runtime svc0
      (JStr ''{"decision":"APPROVED","reason":"ok","confidence":7}'') =
      Inr \<lparr>status = JStr ''APPROVED'', reason = JStr ''ok'',
           metadata = Some [(''confidence'', JNum 7), (''model'', JStr ''gpt-3.5-turbo'')]\<rparr> \<and>
    \<not> confidence_in_unit_interval
        \<lparr>status = JStr ''APPROVED'', reason = JStr ''ok'',
         metadata = Some [(''confidence'', JNum 7), (''model'', JStr ''gpt-3.5-turbo'')]\<rparr>\<close>
  by (simp add: matches_decision_schema_def parseDecisionResponse_def sample_runtime_def
      JSON_parse_table_def JSON_parse_or_throw_def bindE_def catchE_def svc0_def
      confidence_in_unit_interval_def confidence_of_def)

text \<open>
  C3, amended.  For every reply text that parses to a value matching the decision schema,
  \<^verbatim>\<open>GPTService.parseDecisionResponse\<close> (schema key \<^verbatim>\<open>decision\<close>) and
  \<^verbatim>\<open>LeaveApprovalWorkflow.parseResponse\<close> (schema key \<^verbatim>\<open>status\<close>) produce a decision
  whose status is one of the five statuses and whose confidence is the reply's confidence,
  unchanged: it lies between 0 and 1 exactly when the reply's confidence does.
\<close>

theorem decision_mapping_copies_reply:
  assumes "JSON_parse rt raw = Some v"
  shows "(matches_decision_schema ''decision'' v \<longrightarrow>
           (\<exists>d. parseDecisionResponse rt svc (JStr raw) = Inr d \<and> status_in_enum d \<and>
                confidence_of d = reply_confidence v \<and>
                confidence_in_unit_interval d =
                  (\<exists>c. reply_confidence v = JNum c \<and> 0 \<le> c \<and> c \<le> 1))) \<and>
         (matches_decision_schema ''status'' v \<longrightarrow>
           (\<exists>d. parseResponse rt (JStr raw) = Inr d \<and> status_in_enum d \<and>
                confidence_of d = reply_confidence v \<and>
                confidence_in_unit_interval d =
                  (\<exists>c. reply_confidence v = JNum c \<and> 0 \<le> c \<and> c \<le> 1)))"
  using parseDecisionResponse_schema [OF assms] parseResponse_schema [OF assms]
  by blast

text \<open>
  C3, amended, on a reply for the service with confidence 0.9 and on a reply for the
  workflow with confidence 0.4.
\<close>

theorem decision_mapping_copies_reply_witness:
  \<open>JSON_parse sample_runtime ''{"decision":"APPROVED","reason":"enough balance","confidence":0.9}'' =
     Some (JObj [(''decision'', JStr ''APPROVED''), (''reason'', JStr ''enough balance''),
                 (''confidence'', JNum (9 / 10))]) \<and>
   matches_decision_schema ''decision''
     (JObj [(''decision'', JStr ''APPROVED''), (''reason'', JStr ''enough balance''),
            (''confidence'', JNum (9 / 10))]) \<and>
   parseDecisionResponse sample_runtime svc0
     (JStr ''{"decision":"APPROVED","reason":"enough balance","confidence":0.9}'') =
     Inr \<lparr>status = JStr ''APPROVED'', reason = JStr ''enough balance'',
          metadata = Some [(''confidence'', JNum (9 / 10)), (''model'', JStr ''gpt-3.5-turbo'')]\<rparr> \<and>
   JSON_parse sample_runtime ''{"status":"DENIED","reason":"no coverage","confidence":0.4}'' =
     Some (JObj [(''status'', JStr ''DENIED''), (''reason'', JStr ''no coverage''),
                 (''confidence'', JNum (4 / 10))]) \<and>
   matches_decision_schema ''status''
     (JObj [(''status'', JStr ''DENIED''), (''reason'', JStr ''no coverage''),
            (''confidence'', JNum (4 / 10))]) \<and>
   parseResponse sample_runtime
     (JStr ''{"status":"DENIED","reason":"no coverage","confidence":0.4}'') =
     Inr \<lparr>status = JStr ''DENIED'', reason = JStr ''no coverage'',
          metadata = Some [(''confidence'', JNum (4 / 10)),
                           (''evaluatedAt'', JStr ''2024-01-01T09:00:00.000Z'')]\<rparr>\<close>
proof -
  have p1: \<open>JSON_parse sample_runtime ''{"decision":"APPROVED","reason":"enough balance","confidence":0.9}'' =
     Some (JObj [(''decision'', JStr ''APPROVED''), (''reason'', JStr ''enough balance''),
                 (''confidence'', JNum (9 / 10))])\<close>
    by (simp add: sample_runtime_def JSON_parse_table_def)
  have p2: \<open>JSON_parse sample_runtime ''{"status":"DENIED","reason":"no coverage","confidence":0.4}'' =
     Some (JObj [(''status'', JStr ''DENIED''), (''reason'', JStr ''no coverage''),
                 (''confidence'', JNum (4 / 10))])\<close>
    by (simp add: sample_runtime_def JSON_parse_table_def)
  from decision_mapping_copies_reply [OF p1, of svc0]
       decision_mapping_copies_reply [OF p2, of svc0] p1 p2
  show ?thesis
    by (simp add: matches_decision_schema_def parseDecisionResponse_def parseResponse_def
        JSON_parse_or_throw_def bindE_def catchE_def template_def svc0_def)
       (simp add: sample_runtime_def)
qed

text \<open>
  C4.  When the reply text is not valid JSON, each of \<^verbatim>\<open>GPTService.parseDecisionResponse\<close>,
  \<^verbatim>\<open>GPTService.parseComplianceResponse\<close>, \<^verbatim>\<open>LeaveApprovalWorkflow.parseResponse\<close> and
  \<^verbatim>\<open>ComplianceCheckWorkflow.scan\<close> fails with an error whose message is the operation's
  prefix followed by the raw reply text; the outcome is the error alone, with no result
  record.
\<close>

theorem invalid_json_fails_with_raw_text:
  assumes "JSON_parse rt raw = None"
  shows "parseDecisionResponse rt svc (JStr raw) =
           Inl (Error (''Failed to parse AI response: '' @ raw)) \<and>
         parseComplianceResponse rt (JStr raw) =
           Inl (Error (''Failed to parse compliance response: '' @ raw)) \<and>
         parseResponse rt (JStr raw) =
           Inl (Error (''Failed to parse AI response: '' @ raw)) \<and>
         (detectionChain (JSON_stringify rt 2 hrData) = Inr raw \<longrightarrow>
            ComplianceCheckWorkflow_scan rt detectionChain hrData =
              Inl (Error (''Failed to parse compliance scan results: '' @ raw)))"
  using assms
  by (simp add: parseDecisionResponse_def parseComplianceResponse_def parseResponse_def
      ComplianceCheckWorkflow_scan_def JSON_parse_or_throw_def bindE_def catchE_def template_def)

text \<open>C4 on the reply text "I cannot decide".\<close>

theorem invalid_json_fails_with_raw_text_witness:
  "JSON_parse sample_runtime ''I cannot decide'' = None \<and>
   parseDecisionResponse sample_runtime svc0 (JStr ''I cannot decide'') =
     Inl (Error ''Failed to parse AI response: I cannot decide'') \<and>
   parseComplianceResponse sample_runtime (JStr ''I cannot decide'') =
     Inl (Error ''Failed to parse compliance response: I cannot decide'') \<and>
   parseResponse sample_runtime (JStr ''I cannot decide'') =
     Inl (Error ''Failed to parse AI response: I cannot decide'') \<and>
   ComplianceCheckWorkflow_scan sample_runtime (\<lambda>input. Inr ''I cannot decide'') (JObj []) =
     Inl (Error ''Failed to parse compliance scan results: I cannot decide'')"
proof -
  have p: "JSON_parse sample_runtime ''I cannot decide'' = None"
    by (simp add: sample_runtime_def JSON_parse_table_def)
  from invalid_json_fails_with_raw_text
         [OF p, of svc0 "\<lambda>input. Inr ''I cannot decide''" "JObj []"] p
  show ?thesis
    by simp
qed

section \<open>What becomes of a failure\<close>

text \<open>
  Both model-backed operations of the service fail on every call: the system message cannot be
  built, the \<^verbatim>\<open>catch\<close> block logs a \<^verbatim>\<open>GPT_ERROR\<close> event, and \<^verbatim>\<open>handleError\<close> throws.  The
  model is never invoked.
\<close>

lemma gpt_service_evaluateLeaveRequest_always_throws:
  "GPTService_evaluateLeaveRequest rt llm request ctx svc =
     (Inl (Error ''[GPTService] SystemMessage is not defined''),
      svc\<lparr>auditLog := auditLog svc @
             [JObj [(''event'', JStr ''GPT_ERROR''),
                    (''context'', JStr ''leave-request-evaluation''),
                    (''error'', JStr ''SystemMessage is not defined''),
                    (''model'', JStr (model_id (currentModel svc)))]]\<rparr>)"
  by (simp add: GPTService_evaluateLeaveRequest_def evaluateLeaveRequest_try_def
      createSystemMessage_def bindE_def GPTService_handleError_def errorMessageOf_def Let_def)

lemma gpt_service_scan_always_throws:
  "GPTService_scanForComplianceIssues rt llm hrData svc =
     (Inl (Error ''[GPTService] SystemMessage is not defined''),
      svc\<lparr>auditLog := auditLog svc @
             [JObj [(''event'', JStr ''GPT_ERROR''),
                    (''context'', JStr ''compliance-scan''),
                    (''error'', JStr ''SystemMessage is not defined''),
                    (''model'', JStr (model_id (currentModel svc)))]]\<rparr>)"
  by (simp add: GPTService_scanForComplianceIssues_def scanForComplianceIssues_try_def
      createSystemMessage_def bindE_def GPTService_handleError_def errorMessageOf_def Let_def)




section \<open>Validation before the model call\<close>

text \<open>
  \<^verbatim>\<open>BaseAgent.validateRequest\<close> rejects every request whose start date is after its end
  date.  \<^verbatim>\<open>LeaveApprovalWorkflow.evaluate\<close> makes no model call when its inherited
  validation rejects the inputs, and with the inherited members as the specification
  describes them it rejects such a request and answers with an \<^verbatim>\<open>ERROR\<close> decision.
\<close>

lemma validateRequest_rejects_start_after_end:
  "date_gt (new_Date (startDate request)) (new_Date (endDate request)) \<Longrightarrow>
   validateRequest request = Some (Error ''Start date cannot be after end date'')"
  by (cases "startDate request"; cases "endDate request") (auto simp: validateRequest_def)

lemma workflow_makes_no_call_when_validation_fails:
  "validateInputs base request employee = Some err \<Longrightarrow>
   snd (LeaveApprovalWorkflow_evaluate rt base llm request employee ctx calls) = calls"
  by (simp add: LeaveApprovalWorkflow_evaluate_def)

lemma spec_validation_rejects_start_after_end:
  "date_gt (new_Date (startDate request)) (new_Date (endDate request)) \<Longrightarrow>
   LeaveApprovalWorkflow_evaluate rt BaseWorkflow_spec llm request employee ctx calls =
     (Inr \<lparr>status = JStr ''ERROR'',
           reason = JStr ''Validation failed: start date is after end date'',
           metadata = None\<rparr>, calls)"
  by (cases "new_Date (startDate request)"; cases "new_Date (endDate request)")
     (auto simp: LeaveApprovalWorkflow_evaluate_def BaseWorkflow_spec_def errorMessageOf_def)

text \<open>
  \<^verbatim>\<open>BaseAgent.validateRequest\<close> tells the two sample requests apart: the one from
  2024-01-05 to 2024-01-02 fails, the one from 2024-01-02 to 2024-01-03 passes.
\<close>

lemma late_request_fails_validation:
  "validateRequest late_request = Some (Error ''Start date cannot be after end date'')"
  by (simp add: validateRequest_def late_request_def utc_date_def days_from_civil_def
      millisecondsPerDay_def)

lemma flu_request_passes_validation:
  "validateRequest flu_request = None"
  by (simp add: validateRequest_def flu_request_def utc_date_def days_from_civil_def
      millisecondsPerDay_def)

text \<open>
  C2 at a failing input: the request from 2024-01-05 to 2024-01-02, whose start date is
  after its end date.  \<^verbatim>\<open>GPTService.evaluateLeaveRequest\<close> does not validate it.  The call
  fails, with no model invocation, on the unbound \<^verbatim>\<open>SystemMessage\<close>: the error and the
  logged event name that and not the dates, and the valid request from 2024-01-02 to
  2024-01-03 fails in the same way.
\<close>

theorem gpt_service_fails_without_validating:
  "GPTService_evaluateLeaveRequest sample_runtime approving_provider late_request sample_ctx svc0 =
     (Inl (Error ''[GPTService] SystemMessage is not defined''),
      \<lparr>currentModel = GPT35,
       auditLog = [JObj [(''event'', JStr ''GPT_ERROR''),
                         (''context'', JStr ''leave-request-evaluation''),
                         (''error'', JStr ''SystemMessage is not defined''),
                         (''model'', JStr ''gpt-3.5-turbo'')]],
       costLog = [], invocations = []\<rparr>) \<and>
   fst (GPTService_evaluateLeaveRequest sample_runtime approving_provider flu_request
          sample_ctx svc0) =
     Inl (Error ''[GPTService] SystemMessage is not defined'')"
  by (simp add: GPTService_evaluateLeaveRequest_def evaluateLeaveRequest_try_def
      createSystemMessage_def bindE_def GPTService_handleError_def errorMessageOf_def Let_def
      svc0_def)

section \<open>Compliance alerts\<close>

lemma map_of_set_prop_same: "map_of (set_prop k v ps) k = Some v"
  by (induction ps) auto

lemma map_of_set_prop_other: "k' \<noteq> k \<Longrightarrow> map_of (set_prop k v ps) k' = map_of ps k'"
  by (induction ps) auto

lemma mapE_Inr_member:
  "mapE f xs = Inr ys \<Longrightarrow> y \<in> set ys \<Longrightarrow> \<exists>x \<in> set xs. f x = Inr y"
  by (induction xs arbitrary: ys) (auto split: sum.splits)

lemma array_map_Inr_member:
  "array_map f v = Inr ys \<Longrightarrow> y \<in> set ys \<Longrightarrow> \<exists>x. f x = Inr y"
  by (auto simp: array_map_def split: jsval.splits dest: mapE_Inr_member)

text \<open>
  Every alert that \<^verbatim>\<open>ComplianceCheckWorkflow.scan\<close> returns has status \<^verbatim>\<open>OPEN\<close> and a
  detection timestamp, whatever the issue it was built from.
\<close>

lemma workflow_alerts_are_open:
  assumes "ComplianceCheckWorkflow_scan rt detectionChain hrData = Inr alerts"
    and "a \<in> set alerts"
  shows "get_prop a ''status'' = Inr (JStr ''OPEN'') \<and>
         get_prop a ''detectedAt'' = Inr (JStr (isoNow rt))"
proof -
  from assms(1) obtain issues where
    "array_map (\<lambda>issue. Inr (JObj (set_prop ''status'' (JStr ''OPEN'')
        (set_prop ''detectedAt'' (JStr (isoNow rt)) (spread issue))))) issues = Inr alerts"
    by (auto simp: ComplianceCheckWorkflow_scan_def Let_def bindE_def catchE_def
        split: sum.splits)
  from array_map_Inr_member [OF this assms(2)] obtain issue where
    "a = JObj (set_prop ''status'' (JStr ''OPEN'')
           (set_prop ''detectedAt'' (JStr (isoNow rt)) (spread issue)))"
    by auto
  then show ?thesis
    by (simp add: map_of_set_prop_same map_of_set_prop_other)
qed

text \<open>
  Every alert that \<^verbatim>\<open>GPTService.parseComplianceResponse\<close> returns has a detection
  timestamp and no status property.
\<close>

lemma service_alerts_have_no_status:
  assumes "parseComplianceResponse rt responseContent = Inr alerts"
    and "a \<in> set alerts"
  shows "get_prop a ''status'' = Inr JUndefined \<and>
         get_prop a ''detectedAt'' = Inr (JStr (isoNow rt))"
proof -
  let ?f = "\<lambda>issue.
              bindE (get_prop issue ''type'') (\<lambda>ty.
              bindE (get_prop issue ''severity'') (\<lambda>severity.
              bindE (get_prop issue ''description'') (\<lambda>description.
                Inr (JObj [(''type'', ty),
                           (''severity'', severity),
                           (''description'', description),
                           (''detectedAt'', JStr (isoNow rt))]))))"
  from assms(1) obtain issues where "array_map ?f issues = Inr alerts"
    by (auto simp: parseComplianceResponse_def bindE_def catchE_def split: sum.splits)
  from array_map_Inr_member [OF this assms(2)] obtain issue where "?f issue = Inr a"
    by auto
  then show ?thesis
    by (auto simp: bindE_def split: sum.splits)
qed


end
